theory Spec2Isabelle
  imports Complex_Main
begin

section \<open>Numbers and typed arrays\<close>

text \<open>
  The offscreen document of AI Consul Lite (\<^verbatim>\<open>src/offscreen/offscreen.js\<close>) resamples
  decoded audio with JavaScript number arithmetic on a \<^verbatim>\<open>Float32Array\<close>. The sample
  values are idealised here as exact real numbers together with \<^verbatim>\<open>NaN\<close>: the rounding
  of the interpolated values is not modelled, the propagation of \<^verbatim>\<open>NaN\<close> is. Reading a
  typed array outside its bounds yields \<^verbatim>\<open>undefined\<close> (\<open>None\<close>), which arithmetic
  converts to \<^verbatim>\<open>NaN\<close>.
\<close>

datatype jsnum = Num real | NaN

fun to_number :: "jsnum option \<Rightarrow> jsnum" where
  "to_number None = NaN"
| "to_number (Some v) = v"

fun js_add :: "jsnum \<Rightarrow> jsnum \<Rightarrow> jsnum" where
  "js_add (Num a) (Num b) = Num (a + b)"
| "js_add _ _ = NaN"

fun js_sub :: "jsnum \<Rightarrow> jsnum \<Rightarrow> jsnum" where
  "js_sub (Num a) (Num b) = Num (a - b)"
| "js_sub _ _ = NaN"

fun js_mul :: "jsnum \<Rightarrow> jsnum \<Rightarrow> jsnum" where
  "js_mul (Num a) (Num b) = Num (a * b)"
| "js_mul _ _ = NaN"

definition typed_get :: "jsnum list \<Rightarrow> int \<Rightarrow> jsnum option" where
  \<comment> \<open>\<^verbatim>\<open>audioData[k]\<close>: \<^verbatim>\<open>undefined\<close> outside the array.\<close>
  "typed_get xs k = (if 0 \<le> k \<and> k < int (length xs) then Some (xs ! nat k) else None)"

definition Math_round :: "real \<Rightarrow> int" where
  \<comment> \<open>\<^verbatim>\<open>Math.round\<close> of a finite number: to the nearest integer, halves towards \<open>+\<infinity>\<close>.\<close>
  "Math_round x = \<lfloor>x + 1 / 2\<rfloor>"

definition Math_floor :: "real \<Rightarrow> int" where
  "Math_floor x = \<lfloor>x\<rfloor>"

datatype js_error = RangeError

section \<open>Double precision\<close>

text \<open>
  The sample rates, the ratio, the size of the result and the position in the input are
  JavaScript numbers, that is IEEE 754 doubles, and the quotients and products that
  compute them are rounded: to the nearest double, ties to the even significand, with
  subnormal numbers below \<open>2\<^sup>-\<^sup>1\<^sup>0\<^sup>2\<^sup>2\<close> and overflow to infinity from
  \<open>2\<^sup>1\<^sup>0\<^sup>2\<^sup>4\<close>. The sign of a zero and of an infinity is not kept: every use
  below treats both signs alike.
\<close>

datatype double = Finite real | Infinite | NotANumber

definition pow2 :: "int \<Rightarrow> real" where
  "pow2 e = (if 0 \<le> e then 2 ^ nat e else 1 / 2 ^ nat (- e))"

text \<open>The binary exponent of a positive number \<open>a\<close>: the \<open>e\<close> with
  \<open>2\<^sup>e \<le> a < 2\<^sup>e\<^sup>+\<^sup>1\<close>.\<close>

function exponent_of :: "real \<Rightarrow> int" where
  "exponent_of a =
     (if a \<le> 0 then 0
      else if 2 \<le> a then exponent_of (a / 2) + 1
      else if a < 1 then exponent_of (a * 2) - 1
      else 0)"
  by pat_completeness auto
termination
proof (relation "measure (\<lambda>a. nat \<bar>\<lfloor>log 2 a\<rfloor>\<bar>)")
  show "wf (measure (\<lambda>a. nat \<bar>\<lfloor>log 2 a\<rfloor>\<bar>))" by simp
next
  fix a :: real
  assume "\<not> a \<le> 0" "2 \<le> a"
  then have "log 2 (a / 2) = log 2 a - 1" by (simp add: log_divide)
  moreover have "1 \<le> log 2 a" using \<open>2 \<le> a\<close> by (simp add: le_log_iff)
  then have "1 \<le> \<lfloor>log 2 a\<rfloor>" by simp
  ultimately show "(a / 2, a) \<in> measure (\<lambda>a. nat \<bar>\<lfloor>log 2 a\<rfloor>\<bar>)" by simp
next
  fix a :: real
  assume "\<not> a \<le> 0" "\<not> 2 \<le> a" "a < 1"
  then have "log 2 (a * 2) = log 2 a + 1" by (simp add: log_mult)
  moreover have "log 2 a < 0" using \<open>\<not> a \<le> 0\<close> \<open>a < 1\<close> by simp
  then have "\<lfloor>log 2 a\<rfloor> \<le> -1" by (simp add: floor_le_iff)
  ultimately show "(a * 2, a) \<in> measure (\<lambda>a. nat \<bar>\<lfloor>log 2 a\<rfloor>\<bar>)" by simp
qed

declare exponent_of.simps [simp del]

definition round_half_even :: "real \<Rightarrow> int" where
  "round_half_even m =
     (let f = \<lfloor>m\<rfloor>; d = m - of_int f
      in if d < 1 / 2 then f else if 1 / 2 < d then f + 1 else if even f then f else f + 1)"

text \<open>The double nearest to a real number: 53 significant bits, the unit in the last
  place never below \<open>2\<^sup>-\<^sup>1\<^sup>0\<^sup>7\<^sup>4\<close>.\<close>

definition double_round :: "real \<Rightarrow> double" where
  "double_round x =
     (if x = 0 then Finite 0
      else
        let a = \<bar>x\<bar>;
            q = max (exponent_of a) (- 1022) - 52;
            n = round_half_even (a / pow2 q);
            r = of_int n * pow2 q
        in if pow2 1024 \<le> r then Infinite else Finite (sgn x * r))"

text \<open>The operators \<^verbatim>\<open>/\<close> and \<^verbatim>\<open>*\<close> on numbers.\<close>

fun js_div :: "double \<Rightarrow> double \<Rightarrow> double" where
  "js_div (Finite a) (Finite b) =
     (if b = 0 then (if a = 0 then NotANumber else Infinite) else double_round (a / b))"
| "js_div (Finite a) Infinite = Finite 0"
| "js_div Infinite (Finite b) = Infinite"
| "js_div _ _ = NotANumber"

fun js_times :: "double \<Rightarrow> double \<Rightarrow> double" where
  "js_times (Finite a) (Finite b) = double_round (a * b)"
| "js_times (Finite a) Infinite = (if a = 0 then NotANumber else Infinite)"
| "js_times Infinite (Finite b) = (if b = 0 then NotANumber else Infinite)"
| "js_times Infinite Infinite = Infinite"
| "js_times _ _ = NotANumber"

text \<open>\<^verbatim>\<open>Math.round\<close> on any number; the result of a finite number is an integer.\<close>

fun Math_round_number :: "double \<Rightarrow> double" where
  "Math_round_number (Finite x) = Finite (of_int (Math_round x))"
| "Math_round_number Infinite = Infinite"
| "Math_round_number NotANumber = NotANumber"

section \<open>The resampler\<close>

text \<open>
  One iteration of the loop body of \<^verbatim>\<open>resampleAudio\<close>: the value stored at
  \<^verbatim>\<open>result[i]\<close>. The position \<^verbatim>\<open>i * ratio\<close> is a rounded product; its floor and its
  fractional part are exact. A position that is not finite indexes nothing and has no
  fractional part.
\<close>

definition interpolate :: "jsnum list \<Rightarrow> double \<Rightarrow> nat \<Rightarrow> jsnum" where
  "interpolate audioData ratio i =
     (case js_times (Finite (of_nat i)) ratio of
        Finite indexInOld \<Rightarrow>
          (let nearIndex = Math_floor indexInOld;
               fraction = indexInOld - of_int nearIndex;
               nearValue = typed_get audioData nearIndex;
               farValue = typed_get audioData (nearIndex + 1)
           in js_add (to_number nearValue)
                (js_mul (js_sub (to_number farValue) (to_number nearValue)) (Num fraction)))
      | Infinite \<Rightarrow> NaN
      | NotANumber \<Rightarrow> NaN)"

text \<open>The \<^verbatim>\<open>for\<close> loop, from index \<open>i\<close>, writing into \<open>result\<close>.\<close>

function resample_loop :: "jsnum list \<Rightarrow> double \<Rightarrow> nat \<Rightarrow> nat \<Rightarrow> jsnum list \<Rightarrow> jsnum list" where
  "resample_loop audioData ratio newLength i result =
     (if i < newLength
      then resample_loop audioData ratio newLength (Suc i)
             (result[i := interpolate audioData ratio i])
      else result)"
  by pat_completeness auto
termination
  by (relation "measure (\<lambda>(audioData, ratio, newLength, i, result). newLength - i)") auto

declare resample_loop.simps [simp del]

text \<open>
  Arrays are objects: the heap maps a reference to the contents of the array it names,
  and \<open>fresh\<close> is the next unused reference. \<open>max_length\<close> is the largest number of
  elements that the host allocates for one typed array; it depends on the host.
\<close>

type_synonym ref = nat

record heap =
  arrays :: "ref \<Rightarrow> jsnum list"
  fresh :: ref
  max_length :: nat

text \<open>
  \<^verbatim>\<open>new Float32Array(v)\<close> for a number \<open>v\<close>: the length is \<open>v\<close> truncated to an
  integer, \<^verbatim>\<open>NaN\<close> counting as zero; a length that is infinite, negative, above
  \<open>2\<^sup>5\<^sup>3 - 1\<close> or above what the host allocates is a \<^verbatim>\<open>RangeError\<close>; otherwise a
  zero-filled array is allocated.
\<close>

definition ToIndex :: "double \<Rightarrow> js_error + nat" where
  "ToIndex v =
     (case v of
        NotANumber \<Rightarrow> Inr 0
      | Infinite \<Rightarrow> Inl RangeError
      | Finite x \<Rightarrow>
          (let n = (if 0 \<le> x then \<lfloor>x\<rfloor> else \<lceil>x\<rceil>)
           in if n < 0 \<or> 2 ^ 53 - 1 < n then Inl RangeError else Inr (nat n)))"

definition new_Float32Array :: "heap \<Rightarrow> double \<Rightarrow> js_error + heap \<times> ref" where
  "new_Float32Array h v =
     (case ToIndex v of
        Inl e \<Rightarrow> Inl e
      | Inr n \<Rightarrow>
          if max_length h < n then Inl RangeError
          else Inr (h\<lparr>arrays := (arrays h)(fresh h := replicate n (Num 0)),
                       fresh := Suc (fresh h)\<rparr>, fresh h))"

text \<open>
  The size of the result as the code computes it:
  \<^verbatim>\<open>Math.round(audioData.length / ratio)\<close> with \<^verbatim>\<open>ratio = fromSampleRate / toSampleRate\<close>,
  both quotients in double precision. The length of an array is an integer below
  \<open>2\<^sup>5\<^sup>3\<close> and so a double as it is.
\<close>

definition ratio_of :: "real \<Rightarrow> real \<Rightarrow> double" where
  "ratio_of fromSampleRate toSampleRate = js_div (Finite fromSampleRate) (Finite toSampleRate)"

definition newLength_of :: "nat \<Rightarrow> real \<Rightarrow> real \<Rightarrow> double" where
  "newLength_of len fromSampleRate toSampleRate =
     Math_round_number (js_div (Finite (of_nat len)) (ratio_of fromSampleRate toSampleRate))"

text \<open>
  \<^verbatim>\<open>resampleAudio\<close>. The loop runs while \<^verbatim>\<open>i < newLength\<close>; once the array is
  allocated, \<^verbatim>\<open>newLength\<close> is its length, or \<^verbatim>\<open>NaN\<close> and the array empty, and the loop
  runs over the length of the array either way.
\<close>

definition resampleAudio :: "heap \<Rightarrow> ref \<Rightarrow> real \<Rightarrow> real \<Rightarrow> js_error + heap \<times> ref" where
  "resampleAudio h audioData fromSampleRate toSampleRate =
     (if fromSampleRate = toSampleRate then Inr (h, audioData)
      else
        let ratio = ratio_of fromSampleRate toSampleRate;
            newLength = newLength_of (length (arrays h audioData)) fromSampleRate toSampleRate
        in case new_Float32Array h newLength of
             Inl e \<Rightarrow> Inl e
           | Inr (h1, result) \<Rightarrow>
               let filled = resample_loop (arrays h audioData) ratio
                              (length (arrays h1 result)) 0 (arrays h1 result)
               in Inr (h1\<lparr>arrays := (arrays h1)(result := filled)\<rparr>, result))"

text \<open>The contents of the array that a call returned, if it returned.\<close>

definition result_samples :: "js_error + heap \<times> ref \<Rightarrow> jsnum list option" where
  "result_samples r = (case r of Inl e \<Rightarrow> None | Inr (h, a) \<Rightarrow> Some (arrays h a))"


section \<open>Messages\<close>

text \<open>
  What the Whisper worker posts to the offscreen document (\<^verbatim>\<open>e.data\<close>): an object with
  some of the fields \<^verbatim>\<open>text\<close>, \<^verbatim>\<open>status\<close> and \<^verbatim>\<open>error\<close>; an absent field is
  \<open>None\<close>.
\<close>

record worker_data =
  data_text :: "string option"
  data_status :: "string option"
  data_error :: "string option"

definition status_data :: "string \<Rightarrow> worker_data" where
  "status_data st = \<lparr>data_text = None, data_status = Some st, data_error = None\<rparr>"

definition error_data :: "string \<Rightarrow> string \<Rightarrow> worker_data" where
  "error_data st msg = \<lparr>data_text = None, data_status = Some st, data_error = Some msg\<rparr>"

definition text_data :: "string \<Rightarrow> worker_data" where
  "text_data t = \<lparr>data_text = Some t, data_status = None, data_error = None\<rparr>"

text \<open>What the offscreen document sends to the service worker with
  \<^verbatim>\<open>chrome.runtime.sendMessage\<close>.\<close>

datatype runtime_msg =
    TRANSCRIPT_READY string
  | MODEL_LOADING
  | CAPTURE_STARTED
  | CAPTURE_ERROR string
  | KEEP_ALIVE

text \<open>What the service worker sends to the offscreen document.\<close>

datatype offscreen_msg = START_CAPTURE string | STOP_CAPTURE

section \<open>The Whisper worker\<close>

text \<open>
  \<^verbatim>\<open>String.prototype.trim\<close> on strings of 8-bit code units: the white space and line
  terminators below are stripped from both ends.
\<close>

definition js_whitespace :: "char \<Rightarrow> bool" where
  "js_whitespace c = (c \<in> set [CHR 0x09, CHR 0x0A, CHR 0x0B, CHR 0x0C, CHR 0x0D, CHR 0x20, CHR 0xA0])"

definition trim :: "string \<Rightarrow> string" where
  "trim s = rev (dropWhile js_whitespace (rev (dropWhile js_whitespace s)))"

text \<open>
  The library call \<^verbatim>\<open>pipeline(task, MODEL_PATH, ...)\<close> is outside the repository; its
  behaviour is a parameter. It either throws at once or returns a promise, which is
  fulfilled with the transcriber or rejected. The transcriber, called on a chunk, fails or
  yields a transcript object (possibly null, possibly without text).
\<close>

datatype promise = Fulfilled | Rejected string

datatype construction = Throws string | Returns promise

record transcript =
  transcript_text :: "string option"

datatype inference = InferenceFails string | InferenceYields "transcript option"

record pipeline_env =
  pipeline_call :: construction
  transcriber_call :: inference

text \<open>The worker's state is the static field \<^verbatim>\<open>WhisperPipeline.instance\<close>.\<close>

record worker =
  "instance" :: "promise option"

definition new_worker :: worker where
  "new_worker = \<lparr>instance = None\<rparr>"

text \<open>
  \<^verbatim>\<open>WhisperPipeline.getInstance\<close>: the new state, the messages posted, and either the
  error thrown or the promise returned.
\<close>

definition getInstance :: "construction \<Rightarrow> worker \<Rightarrow> worker \<times> worker_data list \<times> (string + promise)" where
  "getInstance c w =
     (case instance w of
        None \<Rightarrow>
          (case c of
             Throws msg \<Rightarrow>
               (w, [status_data ''model_loading'', error_data ''model_error'' msg], Inl msg)
           | Returns p \<Rightarrow>
               (w\<lparr>instance := Some p\<rparr>, [status_data ''model_loading''], Inr p))
      | Some p \<Rightarrow> (w, [], Inr p))"

text \<open>
  \<^verbatim>\<open>self.onmessage\<close> for one audio chunk, run to completion: the new state and the
  messages posted, in order. The \<^verbatim>\<open>await\<close> of a rejected promise throws into the
  \<^verbatim>\<open>catch\<close> block.
\<close>

definition transcript_message :: "transcript option \<Rightarrow> worker_data" where
  "transcript_message t =
     (case t of
        None \<Rightarrow> text_data []
      | Some tr \<Rightarrow>
          (case transcript_text tr of
             None \<Rightarrow> text_data []
           | Some txt \<Rightarrow> if txt \<noteq> [] then text_data (trim txt) else text_data []))"

definition self_onmessage :: "pipeline_env \<Rightarrow> worker \<Rightarrow> worker \<times> worker_data list" where
  "self_onmessage env w =
     (case getInstance (pipeline_call env) w of
        (w1, posted, Inl msg) \<Rightarrow> (w1, posted @ [error_data ''transcription_error'' msg])
      | (w1, posted, Inr (Rejected msg)) \<Rightarrow> (w1, posted @ [error_data ''transcription_error'' msg])
      | (w1, posted, Inr Fulfilled) \<Rightarrow>
          (case transcriber_call env of
             InferenceFails msg \<Rightarrow>
               (w1, posted @ [status_data ''model_ready'', error_data ''transcription_error'' msg])
           | InferenceYields t \<Rightarrow>
               (w1, posted @ [status_data ''model_ready'', transcript_message t])))"

text \<open>The worker handling a sequence of chunks, one message after the other.\<close>

fun worker_run :: "worker \<Rightarrow> pipeline_env list \<Rightarrow> worker \<times> worker_data list" where
  "worker_run w [] = (w, [])"
| "worker_run w (env # envs) =
     (let (w1, posted) = self_onmessage env w;
          (w2, rest) = worker_run w1 envs
      in (w2, posted @ rest))"

section \<open>The capture context\<close>

text \<open>
  \<^verbatim>\<open>whisperWorker.onmessage\<close> in the offscreen document: the messages sent to the
  service worker for one message of the worker. A string is truthy when it is not empty.
\<close>

definition whisperWorker_onmessage :: "worker_data \<Rightarrow> runtime_msg list" where
  "whisperWorker_onmessage d =
     (case data_text d of
        Some t \<Rightarrow> if t \<noteq> [] then [TRANSCRIPT_READY t] else []
      | None \<Rightarrow> [])
     @ (if data_status d = Some ''model_loading'' then [MODEL_LOADING] else [])
     @ (if data_status d = Some ''model_ready'' then [CAPTURE_STARTED] else [])"

definition forwarded :: "worker_data list \<Rightarrow> runtime_msg list" where
  "forwarded posted = concat (map whisperWorker_onmessage posted)"

text \<open>
  The module-level variables of the offscreen document. A \<^verbatim>\<open>MediaRecorder\<close> is known
  by its \<^verbatim>\<open>state\<close>; the worker handle carries the worker's own state, which
  \<^verbatim>\<open>terminate\<close> discards.
\<close>

datatype recorder_state = inactive | recording | paused

datatype audio_context = AudioContext
datatype stream_source = MediaStreamSource
datatype timer = Interval

record offscreen =
  audioContext :: "audio_context option"
  streamSource :: "stream_source option"
  mediaRecorder :: "recorder_state option"
  whisperWorker :: "worker option"
  keepAliveInterval :: "timer option"

definition offscreen_init :: offscreen where
  "offscreen_init =
     \<lparr>audioContext = None, streamSource = None, mediaRecorder = None,
      whisperWorker = None, keepAliveInterval = None\<rparr>"

text \<open>The calls on the host platform that a handler completes, in order.\<close>

datatype host_call =
    GetUserMedia string
  | NewAudioContext
  | CreateMediaStreamSource
  | Connect
  | NewWorker
  | NewMediaRecorder
  | RecorderStart nat
  | RecorderStop
  | Disconnect
  | ContextClose
  | WorkerTerminate
  | SetInterval nat
  | ClearInterval
  | SendMessage runtime_msg

text \<open>
  How the host answers the calls of \<^verbatim>\<open>startCapture\<close>: \<open>None\<close> when the call
  completes, \<open>Some msg\<close> when it throws (or rejects) with that message.
\<close>

record start_env =
  getUserMedia :: "string option"
  new_AudioContext :: "string option"
  createMediaStreamSource :: "string option"
  connect :: "string option"
  new_Worker :: "string option"
  new_MediaRecorder :: "string option"
  recorder_start :: "string option"

definition start_succeeds :: "start_env \<Rightarrow> bool" where
  "start_succeeds env =
     (getUserMedia env = None \<and> new_AudioContext env = None \<and>
      createMediaStreamSource env = None \<and> connect env = None \<and> new_Worker env = None \<and>
      new_MediaRecorder env = None \<and> recorder_start env = None)"

text \<open>
  The \<^verbatim>\<open>try\<close> block of \<^verbatim>\<open>startCapture\<close>: the state reached, the calls completed and
  the error thrown, if any. The assignments made before a throw stay.
\<close>

definition startCapture_try :: "start_env \<Rightarrow> string \<Rightarrow> offscreen \<Rightarrow> offscreen \<times> host_call list \<times> string option" where
  "startCapture_try env streamId s =
     (if getUserMedia env \<noteq> None then (s, [], getUserMedia env) else
      let c1 = [GetUserMedia streamId] in
      if new_AudioContext env \<noteq> None then (s, c1, new_AudioContext env) else
      let s1 = s\<lparr>audioContext := Some AudioContext\<rparr>; c2 = c1 @ [NewAudioContext] in
      if createMediaStreamSource env \<noteq> None then (s1, c2, createMediaStreamSource env) else
      let s2 = s1\<lparr>streamSource := Some MediaStreamSource\<rparr>;
          c3 = c2 @ [CreateMediaStreamSource] in
      if connect env \<noteq> None then (s2, c3, connect env) else
      let c4 = c3 @ [Connect] in
      if whisperWorker s2 = None \<and> new_Worker env \<noteq> None then (s2, c4, new_Worker env) else
      let s3 = (if whisperWorker s2 = None then s2\<lparr>whisperWorker := Some new_worker\<rparr> else s2);
          c5 = (if whisperWorker s2 = None then c4 @ [NewWorker] else c4) in
      if new_MediaRecorder env \<noteq> None then (s3, c5, new_MediaRecorder env) else
      let s4 = s3\<lparr>mediaRecorder := Some inactive\<rparr>; c6 = c5 @ [NewMediaRecorder] in
      if recorder_start env \<noteq> None then (s4, c6, recorder_start env) else
      (s4\<lparr>mediaRecorder := Some recording\<rparr>, c6 @ [RecorderStart 2000], None))"

text \<open>The function \<^verbatim>\<open>startCapture\<close> as declared, kept as \<^verbatim>\<open>originalStartCapture\<close>.\<close>

definition originalStartCapture :: "start_env \<Rightarrow> string \<Rightarrow> offscreen \<Rightarrow> offscreen \<times> host_call list" where
  "originalStartCapture env streamId s =
     (if mediaRecorder s = Some recording then (s, [])
      else case startCapture_try env streamId s of
             (s1, calls, None) \<Rightarrow> (s1, calls)
           | (s1, calls, Some msg) \<Rightarrow> (s1, calls @ [SendMessage (CAPTURE_ERROR msg)]))"

text \<open>The function \<^verbatim>\<open>stopCapture\<close> as declared, kept as \<^verbatim>\<open>originalStopCapture\<close>.
  \<^verbatim>\<open>MediaRecorder.stop\<close> leaves the recorder inactive.\<close>

definition originalStopCapture :: "offscreen \<Rightarrow> offscreen \<times> host_call list" where
  "originalStopCapture s =
     (let (s1, c1) = (if mediaRecorder s = Some recording
                      then (s\<lparr>mediaRecorder := Some inactive\<rparr>, [RecorderStop]) else (s, []));
          (s2, c2) = (if streamSource s1 \<noteq> None
                      then (s1\<lparr>streamSource := None\<rparr>, c1 @ [Disconnect]) else (s1, c1));
          (s3, c3) = (if audioContext s2 \<noteq> None
                      then (s2\<lparr>audioContext := None\<rparr>, c2 @ [ContextClose]) else (s2, c2));
          (s4, c4) = (if whisperWorker s3 \<noteq> None
                      then (s3\<lparr>whisperWorker := None\<rparr>, c3 @ [WorkerTerminate]) else (s3, c3))
      in (s4, c4))"

definition startKeepAlive :: "offscreen \<Rightarrow> offscreen \<times> host_call list" where
  "startKeepAlive s =
     (if keepAliveInterval s \<noteq> None then (s, [])
      else (s\<lparr>keepAliveInterval := Some Interval\<rparr>, [SetInterval 20000]))"

definition stopKeepAlive :: "offscreen \<Rightarrow> offscreen \<times> host_call list" where
  "stopKeepAlive s =
     (if keepAliveInterval s \<noteq> None
      then (s\<lparr>keepAliveInterval := None\<rparr>, [ClearInterval])
      else (s, []))"

text \<open>The callback of the interval: it runs only while the interval is set.\<close>

definition keepAlive_tick :: "offscreen \<Rightarrow> host_call list" where
  "keepAlive_tick s = (if keepAliveInterval s \<noteq> None then [SendMessage KEEP_ALIVE] else [])"

text \<open>
  The reassigned \<^verbatim>\<open>startCapture\<close> and \<^verbatim>\<open>stopCapture\<close>, which every caller reaches:
  the original followed by the keep-alive call.
\<close>

definition startCapture :: "start_env \<Rightarrow> string \<Rightarrow> offscreen \<Rightarrow> offscreen \<times> host_call list" where
  "startCapture env streamId s =
     (let (s1, c1) = originalStartCapture env streamId s;
          (s2, c2) = startKeepAlive s1
      in (s2, c1 @ c2))"

definition stopCapture :: "offscreen \<Rightarrow> offscreen \<times> host_call list" where
  "stopCapture s =
     (let (s1, c1) = originalStopCapture s;
          (s2, c2) = stopKeepAlive s1
      in (s2, c1 @ c2))"

text \<open>
  A chunk posted to the worker, the worker's handler and the forwarding of what it posts,
  for a capture context that has a worker.
\<close>

definition worker_roundtrip :: "pipeline_env \<Rightarrow> offscreen \<Rightarrow> offscreen \<times> host_call list" where
  "worker_roundtrip env s =
     (case whisperWorker s of
        None \<Rightarrow> (s, [])
      | Some w \<Rightarrow>
          (let (w1, posted) = self_onmessage env w
           in (s\<lparr>whisperWorker := Some w1\<rparr>, map SendMessage (forwarded posted))))"

section \<open>The service worker's router\<close>

text \<open>
  The part of the message router in \<^verbatim>\<open>src/background/service-worker.js\<close> that
  receives the messages of the offscreen document. \<^verbatim>\<open>stopCapture()\<close> without a tab
  sends \<^verbatim>\<open>STOP_CAPTURE\<close>, clears the badge of every capturing tab and forgets them.
\<close>

datatype sw_action =
    SetBadgeText string "nat option"
  | SetBadgeBackgroundColor string
  | SendToOffscreen offscreen_msg
  | SaveTranscript string
  | SendResponse

definition sw_stopCapture_all :: "nat list \<Rightarrow> nat list \<times> sw_action list" where
  "sw_stopCapture_all capturingTabs =
     ([], SendToOffscreen STOP_CAPTURE # map (\<lambda>tabId. SetBadgeText [] (Some tabId)) capturingTabs)"

fun sw_onMessage :: "runtime_msg \<Rightarrow> nat list \<Rightarrow> nat list \<times> sw_action list" where
  "sw_onMessage KEEP_ALIVE tabs = (tabs, [SendResponse])"
| "sw_onMessage CAPTURE_STARTED tabs =
     (tabs, [SetBadgeText ''ON'' None, SetBadgeBackgroundColor ''#4688F1''])"
| "sw_onMessage MODEL_LOADING tabs =
     (tabs, [SetBadgeText ''...'' None, SetBadgeBackgroundColor ''#FA9B3D''])"
| "sw_onMessage (TRANSCRIPT_READY t) tabs = (tabs, [SaveTranscript t])"
| "sw_onMessage (CAPTURE_ERROR e) tabs =
     (let (tabs1, acts) = sw_stopCapture_all tabs
      in (tabs1, [SetBadgeText ''ERR'' None, SetBadgeBackgroundColor ''#ef4444''] @ acts))"

section \<open>Reference states and environments\<close>

text \<open>The message that closes the handling of a chunk once the model is available.\<close>

definition chunk_result :: "inference \<Rightarrow> worker_data" where
  "chunk_result i =
     (case i of
        InferenceFails msg \<Rightarrow> error_data ''transcription_error'' msg
      | InferenceYields t \<Rightarrow> transcript_message t)"

text \<open>A host on which every call of \<^verbatim>\<open>startCapture\<close> completes, and one on which
  \<^verbatim>\<open>getUserMedia\<close> is rejected.\<close>

definition all_ok :: start_env where
  "all_ok =
     \<lparr>getUserMedia = None, new_AudioContext = None, createMediaStreamSource = None,
      connect = None, new_Worker = None, new_MediaRecorder = None, recorder_start = None\<rparr>"

definition permission_denied :: start_env where
  "permission_denied = all_ok\<lparr>getUserMedia := Some ''Permission denied''\<rparr>"

text \<open>The capture context while it is listening, with a worker that has not loaded the
  model yet.\<close>

definition listening :: offscreen where
  "listening =
     \<lparr>audioContext = Some AudioContext, streamSource = Some MediaStreamSource,
      mediaRecorder = Some recording, whisperWorker = Some new_worker,
      keepAliveInterval = Some Interval\<rparr>"

text \<open>A chunk of silence, a chunk of speech and a chunk on which inference fails, on a
  host whose model loads; a chunk on a host whose \<^verbatim>\<open>pipeline\<close> call throws, and one
  whose promise is rejected.\<close>

definition silence :: pipeline_env where
  "silence =
     \<lparr>pipeline_call = Returns Fulfilled,
      transcriber_call = InferenceYields (Some \<lparr>transcript_text = Some [] \<rparr>)\<rparr>"

definition speech :: pipeline_env where
  "speech =
     \<lparr>pipeline_call = Returns Fulfilled,
      transcriber_call = InferenceYields (Some \<lparr>transcript_text = Some '' Hello world ''\<rparr>)\<rparr>"

definition bad_chunk :: pipeline_env where
  "bad_chunk =
     \<lparr>pipeline_call = Returns Fulfilled, transcriber_call = InferenceFails ''Transcription failed''\<rparr>"

definition load_throws :: pipeline_env where
  "load_throws =
     \<lparr>pipeline_call = Throws ''load failed'', transcriber_call = InferenceYields None\<rparr>"

definition load_rejected :: pipeline_env where
  "load_rejected =
     \<lparr>pipeline_call = Returns (Rejected ''load failed''), transcriber_call = InferenceYields None\<rparr>"

section \<open>The resampler: size, identity and the end of the input\<close>


lemma resample_loop_step:
  "i < n \<Longrightarrow> resample_loop a r n i res =
     resample_loop a r n (Suc i) (res[i := interpolate a r i])"
  by (simp add: resample_loop.simps)

lemma resample_loop_done: "\<not> i < n \<Longrightarrow> resample_loop a r n i res = res"
  by (simp add: resample_loop.simps)

lemma exponent_of_ge2: "2 \<le> a \<Longrightarrow> exponent_of a = exponent_of (a / 2) + 1"
  by (subst exponent_of.simps) simp

lemma exponent_of_lt1: "0 < a \<Longrightarrow> a < 1 \<Longrightarrow> exponent_of a = exponent_of (a * 2) - 1"
  by (subst exponent_of.simps) simp

lemma exponent_of_unit: "1 \<le> a \<Longrightarrow> a < 2 \<Longrightarrow> exponent_of a = 0"
  by (subst exponent_of.simps) simp

lemmas double_eval =
  exponent_of_ge2 exponent_of_lt1 exponent_of_unit double_round_def round_half_even_def
  pow2_def Let_def













text \<open>
  C6. With equal rates \<^verbatim>\<open>resampleAudio\<close> returns the reference it was given and leaves the
  heap as it is: the same object, hence the same length and the same values.
\<close>

theorem resampleAudio_identity:
  "resampleAudio h audioData rate rate = Inr (h, audioData)"
  by (simp add: resampleAudio_def)

text \<open>
  C1. The loop reads \<^verbatim>\<open>audioData[nearIndex + 1]\<close> without a bound check. Three samples
  at 32000 Hz resampled to 16000 Hz give two samples; the second is computed from
  \<^verbatim>\<open>audioData[2]\<close> and the absent \<^verbatim>\<open>audioData[3]\<close>, and is \<^verbatim>\<open>NaN\<close>. One sample at
  8000 Hz gives two samples, both \<^verbatim>\<open>NaN\<close>.
\<close>

theorem resampleAudio_reads_past_end:
  "result_samples
     (resampleAudio
        \<lparr>arrays = (\<lambda>_. [])(0 := [Num (1 / 10), Num (2 / 10), Num (3 / 10)]), fresh = 1,
         max_length = 4294967295\<rparr>
        0 32000 16000) = Some [Num (1 / 10), NaN]
   \<and> result_samples
     (resampleAudio \<lparr>arrays = (\<lambda>_. [])(0 := [Num (1 / 2)]), fresh = 1, max_length = 4294967295\<rparr>
        0 8000 16000)
       = Some [NaN, NaN]"
  by (simp add: result_samples_def resampleAudio_def newLength_of_def ratio_of_def ToIndex_def
      new_Float32Array_def Math_round_def Math_floor_def resample_loop_step resample_loop_done
      interpolate_def typed_get_def numeral_2_eq_2 double_eval)

section \<open>Stopping and starting the capture\<close>

lemma originalStopCapture_eq:
  "originalStopCapture s =
    (s\<lparr>mediaRecorder := (if mediaRecorder s = Some recording then Some inactive else mediaRecorder s),
       streamSource := None, audioContext := None, whisperWorker := None\<rparr>,
     (if mediaRecorder s = Some recording then [RecorderStop] else []) @
     (if streamSource s \<noteq> None then [Disconnect] else []) @
     (if audioContext s \<noteq> None then [ContextClose] else []) @
     (if whisperWorker s \<noteq> None then [WorkerTerminate] else []))"
  by (cases s) (simp add: originalStopCapture_def)

lemma stopCapture_eq:
  "stopCapture s =
    (s\<lparr>mediaRecorder := (if mediaRecorder s = Some recording then Some inactive else mediaRecorder s),
       streamSource := None, audioContext := None, whisperWorker := None,
       keepAliveInterval := None\<rparr>,
     (if mediaRecorder s = Some recording then [RecorderStop] else []) @
     (if streamSource s \<noteq> None then [Disconnect] else []) @
     (if audioContext s \<noteq> None then [ContextClose] else []) @
     (if whisperWorker s \<noteq> None then [WorkerTerminate] else []) @
     (if keepAliveInterval s \<noteq> None then [ClearInterval] else []))"
  by (cases s) (simp add: stopCapture_def originalStopCapture_eq stopKeepAlive_def)

text \<open>
  C7. \<^verbatim>\<open>stopCapture\<close> is idempotent. With nothing running it makes no call and changes
  nothing; called again after any call of itself it makes no call and changes nothing;
  and in any state each teardown call is made exactly when its own resource is there (the
  recorder recording, the stream source, the audio context, the worker, the interval), at
  most once.
\<close>

theorem stopCapture_idempotent:
  "stopCapture offscreen_init = (offscreen_init, []) \<and>
   stopCapture (fst (stopCapture s)) = (fst (stopCapture s), []) \<and>
   (RecorderStop \<in> set (snd (stopCapture s))) = (mediaRecorder s = Some recording) \<and>
   (Disconnect \<in> set (snd (stopCapture s))) = (streamSource s \<noteq> None) \<and>
   (ContextClose \<in> set (snd (stopCapture s))) = (audioContext s \<noteq> None) \<and>
   (WorkerTerminate \<in> set (snd (stopCapture s))) = (whisperWorker s \<noteq> None) \<and>
   (ClearInterval \<in> set (snd (stopCapture s))) = (keepAliveInterval s \<noteq> None) \<and>
   distinct (snd (stopCapture s))"
proof -
  have 1: "stopCapture offscreen_init = (offscreen_init, [])"
    by (simp add: stopCapture_eq) (simp add: offscreen_init_def)
  have 2: "stopCapture (fst (stopCapture s)) = (fst (stopCapture s), [])"
    by (cases s) (simp add: stopCapture_eq)
  have 3: "(RecorderStop \<in> set (snd (stopCapture s))) = (mediaRecorder s = Some recording)"
    by (simp add: stopCapture_eq)
  have 4: "(Disconnect \<in> set (snd (stopCapture s))) = (streamSource s \<noteq> None)"
    by (simp add: stopCapture_eq)
  have 5: "(ContextClose \<in> set (snd (stopCapture s))) = (audioContext s \<noteq> None)"
    by (simp add: stopCapture_eq)
  have 6: "(WorkerTerminate \<in> set (snd (stopCapture s))) = (whisperWorker s \<noteq> None)"
    by (simp add: stopCapture_eq)
  have 7: "(ClearInterval \<in> set (snd (stopCapture s))) = (keepAliveInterval s \<noteq> None)"
    by (simp add: stopCapture_eq)
  have 8: "distinct (snd (stopCapture s))"
    by (simp add: stopCapture_eq)
  from 1 2 3 4 5 6 7 8 show ?thesis by blast
qed

theorem stopCapture_idempotent_witness:
  "stopCapture listening =
     (offscreen_init\<lparr>mediaRecorder := Some inactive\<rparr>,
      [RecorderStop, Disconnect, ContextClose, WorkerTerminate, ClearInterval]) \<and>
   stopCapture (fst (stopCapture listening)) = (fst (stopCapture listening), [])"
  using stopCapture_idempotent [of listening]
  by (simp add: stopCapture_eq listening_def offscreen_init_def)

lemma stopCapture_silences_keepAlive: "keepAlive_tick (fst (stopCapture s)) = []"
  by (simp add: stopCapture_eq keepAlive_tick_def)

lemma startKeepAlive_once:
  "snd (startKeepAlive (fst (startKeepAlive s))) = []"
  by (simp add: startKeepAlive_def)

lemma startCapture_try_ok:
  assumes "start_succeeds env"
  shows "startCapture_try env sid s =
    (s\<lparr>audioContext := Some AudioContext, streamSource := Some MediaStreamSource,
       whisperWorker := (if whisperWorker s = None then Some new_worker else whisperWorker s),
       mediaRecorder := Some recording\<rparr>,
     [GetUserMedia sid, NewAudioContext, CreateMediaStreamSource, Connect]
       @ (if whisperWorker s = None then [NewWorker] else [])
       @ [NewMediaRecorder, RecorderStart 2000], None)"
  using assms unfolding start_succeeds_def startCapture_try_def
  by (simp add: Let_def)

lemma originalStartCapture_recording:
  "mediaRecorder s = Some recording \<Longrightarrow> originalStartCapture env sid s = (s, [])"
  by (simp add: originalStartCapture_def)

lemma originalStartCapture_ok:
  assumes "start_succeeds env" "mediaRecorder s \<noteq> Some recording"
  shows "originalStartCapture env sid s =
    (s\<lparr>audioContext := Some AudioContext, streamSource := Some MediaStreamSource,
       whisperWorker := (if whisperWorker s = None then Some new_worker else whisperWorker s),
       mediaRecorder := Some recording\<rparr>,
     [GetUserMedia sid, NewAudioContext, CreateMediaStreamSource, Connect]
       @ (if whisperWorker s = None then [NewWorker] else [])
       @ [NewMediaRecorder, RecorderStart 2000])"
  using assms(2) by (simp add: originalStartCapture_def startCapture_try_ok [OF assms(1)])

lemma startCapture_listening:
  assumes "start_succeeds env"
  shows "mediaRecorder (fst (startCapture env sid s)) = Some recording \<and>
         keepAliveInterval (fst (startCapture env sid s)) \<noteq> None"
proof (cases "mediaRecorder s = Some recording")
  case True
  then show ?thesis
    by (simp add: startCapture_def originalStartCapture_recording startKeepAlive_def)
next
  case False
  then show ?thesis
    by (simp add: startCapture_def originalStartCapture_ok [OF assms] startKeepAlive_def)
qed

lemma startCapture_noop:
  assumes "mediaRecorder s = Some recording" "keepAliveInterval s \<noteq> None"
  shows "startCapture env sid s = (s, [])"
  using assms by (simp add: startCapture_def originalStartCapture_recording startKeepAlive_def)

lemma startCapture_init:
  assumes "start_succeeds env"
  shows "startCapture env sid offscreen_init =
    (listening,
     [GetUserMedia sid, NewAudioContext, CreateMediaStreamSource, Connect, NewWorker,
      NewMediaRecorder, RecorderStart 2000, SetInterval 20000])"
proof -
  have "mediaRecorder offscreen_init \<noteq> Some recording" by (simp add: offscreen_init_def)
  from originalStartCapture_ok [OF assms this, of sid]
  show ?thesis by (simp add: startCapture_def startKeepAlive_def offscreen_init_def listening_def)
qed

text \<open>Whatever the host answers and whatever the state, the interval is set when the
  reassigned \<^verbatim>\<open>startCapture\<close> returns.\<close>

lemma startCapture_sets_keepAlive:
  "keepAliveInterval (fst (startCapture env sid s)) \<noteq> None"
  by (cases "keepAliveInterval (fst (originalStartCapture env sid s))")
     (simp_all add: startCapture_def startKeepAlive_def split_def Let_def)

lemma start_succeeds_all_ok: "start_succeeds all_ok"
  by (simp add: start_succeeds_def all_ok_def)

text \<open>
  C8. A second \<^verbatim>\<open>startCapture\<close>, after one that succeeded, is a no-op: it makes no host
  call and leaves the state as it is, however the host would answer. Starting twice from
  the initial state therefore creates one recorder, one worker and one interval, and
  ends in the listening state.
\<close>

theorem startCapture_twice_noop:
  assumes "start_succeeds env1"
  shows "startCapture env2 sid2 (fst (startCapture env1 sid1 s)) = (fst (startCapture env1 sid1 s), []) \<and>
    fst (startCapture env2 sid2 (fst (startCapture env1 sid1 offscreen_init))) = listening \<and>
    count_list (snd (startCapture env1 sid1 offscreen_init) @
                snd (startCapture env2 sid2 (fst (startCapture env1 sid1 offscreen_init))))
       NewMediaRecorder = 1 \<and>
    count_list (snd (startCapture env1 sid1 offscreen_init) @
                snd (startCapture env2 sid2 (fst (startCapture env1 sid1 offscreen_init))))
       NewWorker = 1 \<and>
    count_list (snd (startCapture env1 sid1 offscreen_init) @
                snd (startCapture env2 sid2 (fst (startCapture env1 sid1 offscreen_init))))
       (SetInterval 20000) = 1"
proof -
  have a: "startCapture env2 sid2 (fst (startCapture env1 sid1 s')) = (fst (startCapture env1 sid1 s'), [])"
    for s'
    using startCapture_listening [OF assms] by (simp add: startCapture_noop)
  have b: "fst (startCapture env2 sid2 (fst (startCapture env1 sid1 offscreen_init))) = listening"
    by (simp add: a) (simp add: startCapture_init [OF assms])
  have c: "count_list (snd (startCapture env1 sid1 offscreen_init) @
                snd (startCapture env2 sid2 (fst (startCapture env1 sid1 offscreen_init))))
       NewMediaRecorder = 1"
    by (simp add: a) (simp add: startCapture_init [OF assms])
  have d: "count_list (snd (startCapture env1 sid1 offscreen_init) @
                snd (startCapture env2 sid2 (fst (startCapture env1 sid1 offscreen_init))))
       NewWorker = 1"
    by (simp add: a) (simp add: startCapture_init [OF assms])
  have e: "count_list (snd (startCapture env1 sid1 offscreen_init) @
                snd (startCapture env2 sid2 (fst (startCapture env1 sid1 offscreen_init))))
       (SetInterval 20000) = 1"
    by (simp add: a) (simp add: startCapture_init [OF assms])
  from a b c d e show ?thesis by blast
qed

theorem startCapture_twice_noop_witness:
  "start_succeeds all_ok \<and>
   startCapture all_ok ''stream-2'' (fst (startCapture all_ok ''stream-1'' offscreen_init))
     = (listening, [])"
  using startCapture_twice_noop [OF start_succeeds_all_ok, of all_ok "''stream-2''" "''stream-1''" offscreen_init]
  by (simp add: start_succeeds_all_ok startCapture_init)

text \<open>
  C2. \<^verbatim>\<open>startCapture\<close> on a host that rejects \<^verbatim>\<open>getUserMedia\<close>: the original function
  reports \<^verbatim>\<open>CAPTURE_ERROR\<close> and returns normally, and the wrapper then starts the
  keep-alive interval. The capture did not start, the interval runs and its callback
  sends \<^verbatim>\<open>KEEP_ALIVE\<close>.
\<close>

theorem keepAlive_runs_after_failed_start:
  "startCapture permission_denied ''stream-id-123'' offscreen_init =
     (offscreen_init\<lparr>keepAliveInterval := Some Interval\<rparr>,
      [SendMessage (CAPTURE_ERROR ''Permission denied''), SetInterval 20000]) \<and>
   keepAlive_tick (fst (startCapture permission_denied ''stream-id-123'' offscreen_init)) =
     [SendMessage KEEP_ALIVE]"
  by (simp add: startCapture_def originalStartCapture_def startCapture_try_def
      startKeepAlive_def permission_denied_def all_ok_def offscreen_init_def keepAlive_tick_def)

section \<open>The worker and the forwarding of its messages\<close>

lemma onmessage_loaded:
  "instance w = Some Fulfilled \<Longrightarrow>
   self_onmessage env w = (w, [status_data ''model_ready'', chunk_result (transcriber_call env)])"
  by (simp add: self_onmessage_def getInstance_def chunk_result_def split: inference.splits)

lemma onmessage_first:
  "instance w = None \<Longrightarrow> pipeline_call env = Returns Fulfilled \<Longrightarrow>
   self_onmessage env w =
     (w\<lparr>instance := Some Fulfilled\<rparr>,
      [status_data ''model_loading'', status_data ''model_ready'',
       chunk_result (transcriber_call env)])"
  by (simp add: self_onmessage_def getInstance_def chunk_result_def split: inference.splits)

lemma chunk_result_status: "data_status (chunk_result i) \<noteq> Some ''model_ready''"
  by (simp add: chunk_result_def error_data_def transcript_message_def text_data_def
      split: inference.splits option.splits)

lemma chunk_result_neq: "chunk_result i \<noteq> status_data ''model_ready''"
  using chunk_result_status [of i] by (auto simp: status_data_def)

lemma onmessage_count_started:
  "count_list (whisperWorker_onmessage d) CAPTURE_STARTED =
     (if data_status d = Some ''model_ready'' then 1 else 0)"
  by (simp add: whisperWorker_onmessage_def split: option.splits)

lemma forwarded_Cons: "forwarded (d # ds) = whisperWorker_onmessage d @ forwarded ds"
  by (simp add: forwarded_def)

lemma forwarded_Nil: "forwarded [] = []"
  by (simp add: forwarded_def)

lemma count_list_app: "count_list (xs @ ys) a = count_list xs a + count_list ys a"
  by (induction xs) auto

lemma worker_run_loaded:
  "instance w = Some Fulfilled \<Longrightarrow>
     worker_run w envs =
       (w, concat (map (\<lambda>e. [status_data ''model_ready'', chunk_result (transcriber_call e)]) envs))"
  by (induction envs) (simp_all add: onmessage_loaded)

lemma worker_run_loaded_counts:
  "instance w = Some Fulfilled \<Longrightarrow>
     count_list (snd (worker_run w envs)) (status_data ''model_ready'') = length envs \<and>
     count_list (forwarded (snd (worker_run w envs))) CAPTURE_STARTED = length envs"
proof (induction envs)
  case Nil
  then show ?case by (simp add: forwarded_Nil)
next
  case (Cons e es)
  have st: "data_status (status_data ''model_ready'') = Some ''model_ready''"
    by (simp add: status_data_def)
  from Cons show ?case
    by (simp add: onmessage_loaded split_def Let_def forwarded_Cons count_list_app
        onmessage_count_started chunk_result_status chunk_result_neq st)
qed

text \<open>
  C4. In a session whose model loads, the worker posts \<^verbatim>\<open>model_ready\<close> once for every
  chunk it handles, and the capture context sends \<^verbatim>\<open>CAPTURE_STARTED\<close> once for every
  chunk: \<open>n\<close> chunks give \<open>n\<close> messages.
\<close>

theorem capture_started_per_chunk:
  assumes "pipeline_call env = Returns Fulfilled"
  shows "count_list (snd (worker_run new_worker (env # envs))) (status_data ''model_ready'')
           = length (env # envs) \<and>
         count_list (forwarded (snd (worker_run new_worker (env # envs)))) CAPTURE_STARTED
           = length (env # envs)"
proof -
  let ?w = "new_worker\<lparr>instance := Some Fulfilled\<rparr>"
  have first: "self_onmessage env new_worker =
      (?w, [status_data ''model_loading'', status_data ''model_ready'',
            chunk_result (transcriber_call env)])"
    using assms by (simp add: onmessage_first new_worker_def)
  have loaded: "instance ?w = Some Fulfilled" by simp
  have l: "data_status (status_data ''model_loading'') \<noteq> Some ''model_ready''"
    by (simp add: status_data_def)
  have r: "data_status (status_data ''model_ready'') = Some ''model_ready''"
    by (simp add: status_data_def)
  have ne: "status_data ''model_loading'' \<noteq> status_data ''model_ready''"
    by (simp add: status_data_def)
  from worker_run_loaded_counts [OF loaded, of envs] show ?thesis
    by (simp add: first split_def Let_def forwarded_Cons count_list_app
        onmessage_count_started chunk_result_status chunk_result_neq l r ne)
qed

theorem capture_started_per_chunk_witness:
  "pipeline_call silence = Returns Fulfilled \<and>
   count_list (forwarded (snd (worker_run new_worker [silence, silence, silence])))
     CAPTURE_STARTED = 3"
  using capture_started_per_chunk [of silence "[silence, silence]"]
  by (simp add: silence_def)

theorem capture_started_twice:
  "count_list (forwarded (snd (worker_run new_worker [silence, silence]))) CAPTURE_STARTED = 2
   \<and> count_list (snd (worker_run new_worker [silence, silence])) (status_data ''model_ready'') = 2"
  by (simp add: silence_def new_worker_def self_onmessage_def getInstance_def forwarded_def
      whisperWorker_onmessage_def status_data_def transcript_message_def text_data_def)

text \<open>
  C9. When the model is available (already loaded, or loaded by this very chunk) and
  inference fails on a chunk, the worker posts \<^verbatim>\<open>transcription_error\<close> with the message
  of the failure as the last message of that chunk and keeps the loaded model; every
  later chunk is then handled on its own, giving \<^verbatim>\<open>model_ready\<close> and its own result,
  and a later chunk with speech gives its trimmed text. The session stays up as well: for
  the bad chunk the capture context forwards \<^verbatim>\<open>CAPTURE_STARTED\<close> (after
  \<^verbatim>\<open>MODEL_LOADING\<close> on a first chunk) and nothing else, it keeps its recorder, audio
  graph, worker and interval, the service worker issues no \<^verbatim>\<open>STOP_CAPTURE\<close> for what
  it receives, and a later chunk with speech reaches the service worker as
  \<^verbatim>\<open>TRANSCRIPT_READY\<close>.
\<close>

theorem transcription_failure_nonfatal:
  assumes "instance w = Some Fulfilled \<or> (instance w = None \<and> pipeline_call bad = Returns Fulfilled)"
    and "transcriber_call bad = InferenceFails msg"
  shows "self_onmessage bad w =
           (w\<lparr>instance := Some Fulfilled\<rparr>,
            (if instance w = None then [status_data ''model_loading''] else []) @
            [status_data ''model_ready'', error_data ''transcription_error'' msg]) \<and>
         worker_run w (bad # envs) =
           (w\<lparr>instance := Some Fulfilled\<rparr>,
            snd (self_onmessage bad w) @
            concat (map (\<lambda>e. [status_data ''model_ready'', chunk_result (transcriber_call e)]) envs)) \<and>
         (transcriber_call good = InferenceYields (Some \<lparr>transcript_text = Some t\<rparr>) \<and> t \<noteq> [] \<longrightarrow>
            self_onmessage good (fst (self_onmessage bad w)) =
              (w\<lparr>instance := Some Fulfilled\<rparr>, [status_data ''model_ready'', text_data (trim t)])) \<and>
         forwarded (snd (self_onmessage bad w)) =
           (if instance w = None then [MODEL_LOADING] else []) @ [CAPTURE_STARTED] \<and>
         worker_roundtrip bad (s\<lparr>whisperWorker := Some w\<rparr>) =
           (s\<lparr>whisperWorker := Some (w\<lparr>instance := Some Fulfilled\<rparr>)\<rparr>,
            map SendMessage ((if instance w = None then [MODEL_LOADING] else []) @ [CAPTURE_STARTED])) \<and>
         SendToOffscreen STOP_CAPTURE \<notin>
           set (concat (map (\<lambda>m. snd (sw_onMessage m tabs)) (forwarded (snd (self_onmessage bad w))))) \<and>
         (transcriber_call good = InferenceYields (Some \<lparr>transcript_text = Some t\<rparr>) \<and> trim t \<noteq> [] \<longrightarrow>
            worker_roundtrip good (fst (worker_roundtrip bad (s\<lparr>whisperWorker := Some w\<rparr>))) =
              (s\<lparr>whisperWorker := Some (w\<lparr>instance := Some Fulfilled\<rparr>)\<rparr>,
               [SendMessage CAPTURE_STARTED, SendMessage (TRANSCRIPT_READY (trim t))]))"
proof -
  let ?w = "w\<lparr>instance := Some Fulfilled\<rparr>"
  let ?fw = "(if instance w = None then [MODEL_LOADING] else []) @ [CAPTURE_STARTED]"
  have loaded: "instance ?w = Some Fulfilled" by simp
  have one: "self_onmessage bad w =
           (?w, (if instance w = None then [status_data ''model_loading''] else []) @
                [status_data ''model_ready'', error_data ''transcription_error'' msg])"
    using assms by (auto simp: onmessage_loaded onmessage_first chunk_result_def)
  have run: "worker_run w (bad # envs) =
           (?w, snd (self_onmessage bad w) @
            concat (map (\<lambda>e. [status_data ''model_ready'', chunk_result (transcriber_call e)]) envs))"
    by (simp add: one worker_run_loaded [OF loaded])
  have next_ok: "transcriber_call good = InferenceYields (Some \<lparr>transcript_text = Some t\<rparr>) \<and> t \<noteq> [] \<longrightarrow>
            self_onmessage good (fst (self_onmessage bad w)) =
              (?w, [status_data ''model_ready'', text_data (trim t)])"
    by (simp add: one onmessage_loaded [OF loaded] chunk_result_def transcript_message_def)
  have fw: "forwarded (snd (self_onmessage bad w)) = ?fw"
    by (simp add: one forwarded_def whisperWorker_onmessage_def status_data_def error_data_def)
  have rt: "worker_roundtrip bad (s\<lparr>whisperWorker := Some w\<rparr>) =
           (s\<lparr>whisperWorker := Some ?w\<rparr>, map SendMessage ?fw)"
    using fw by (simp add: worker_roundtrip_def one)
  have sw: "SendToOffscreen STOP_CAPTURE \<notin>
           set (concat (map (\<lambda>m. snd (sw_onMessage m tabs)) (forwarded (snd (self_onmessage bad w)))))"
    unfolding fw by simp
  have session_ok: "transcriber_call good = InferenceYields (Some \<lparr>transcript_text = Some t\<rparr>) \<and> trim t \<noteq> [] \<longrightarrow>
            worker_roundtrip good (fst (worker_roundtrip bad (s\<lparr>whisperWorker := Some w\<rparr>))) =
              (s\<lparr>whisperWorker := Some ?w\<rparr>,
               [SendMessage CAPTURE_STARTED, SendMessage (TRANSCRIPT_READY (trim t))])"
  proof
    assume g: "transcriber_call good = InferenceYields (Some \<lparr>transcript_text = Some t\<rparr>) \<and> trim t \<noteq> []"
    then have "t \<noteq> []" by (auto simp: trim_def)
    with g have gm: "self_onmessage good ?w = (?w, [status_data ''model_ready'', text_data (trim t)])"
      by (simp add: onmessage_loaded [OF loaded] chunk_result_def transcript_message_def)
    have st: "fst (worker_roundtrip bad (s\<lparr>whisperWorker := Some w\<rparr>)) = s\<lparr>whisperWorker := Some ?w\<rparr>"
      by (simp add: rt)
    have fg: "forwarded [status_data ''model_ready'', text_data (trim t)] =
        [CAPTURE_STARTED, TRANSCRIPT_READY (trim t)]"
      using g by (simp add: forwarded_def whisperWorker_onmessage_def status_data_def text_data_def)
    show "worker_roundtrip good (fst (worker_roundtrip bad (s\<lparr>whisperWorker := Some w\<rparr>))) =
              (s\<lparr>whisperWorker := Some ?w\<rparr>,
               [SendMessage CAPTURE_STARTED, SendMessage (TRANSCRIPT_READY (trim t))])"
      unfolding st by (simp add: worker_roundtrip_def gm fg)
  qed
  from one run next_ok fw rt sw session_ok show ?thesis by blast
qed

theorem transcription_failure_nonfatal_witness:
  "(instance new_worker = None \<and> pipeline_call bad_chunk = Returns Fulfilled) \<and>
   transcriber_call bad_chunk = InferenceFails ''Transcription failed'' \<and>
   transcriber_call speech = InferenceYields (Some \<lparr>transcript_text = Some '' Hello world ''\<rparr>) \<and>
   trim '' Hello world '' \<noteq> [] \<and>
   worker_run new_worker [bad_chunk, speech] =
     (\<lparr>instance = Some Fulfilled\<rparr>,
      [status_data ''model_loading'', status_data ''model_ready'',
       error_data ''transcription_error'' ''Transcription failed'',
       status_data ''model_ready'', text_data ''Hello world'']) \<and>
   self_onmessage speech (fst (self_onmessage bad_chunk new_worker)) =
     (\<lparr>instance = Some Fulfilled\<rparr>, [status_data ''model_ready'', text_data ''Hello world'']) \<and>
   worker_roundtrip bad_chunk listening =
     (listening\<lparr>whisperWorker := Some \<lparr>instance = Some Fulfilled\<rparr>\<rparr>,
      [SendMessage MODEL_LOADING, SendMessage CAPTURE_STARTED]) \<and>
   worker_roundtrip speech (fst (worker_roundtrip bad_chunk listening)) =
     (listening\<lparr>whisperWorker := Some \<lparr>instance = Some Fulfilled\<rparr>\<rparr>,
      [SendMessage CAPTURE_STARTED, SendMessage (TRANSCRIPT_READY ''Hello world'')])"
proof -
  have h1: "instance new_worker = Some Fulfilled \<or>
        (instance new_worker = None \<and> pipeline_call bad_chunk = Returns Fulfilled)"
    by (simp add: new_worker_def bad_chunk_def)
  have h2: "transcriber_call bad_chunk = InferenceFails ''Transcription failed''"
    by (simp add: bad_chunk_def)
  have tr: "trim '' Hello world '' = ''Hello world''"
    by (simp add: trim_def js_whitespace_def)
  have ls: "listening\<lparr>whisperWorker := Some new_worker\<rparr> = listening"
    by (simp add: listening_def)
  note T = transcription_failure_nonfatal [OF h1 h2, of "[speech]" speech "'' Hello world ''"
      listening "[]"]
  from T have a: "self_onmessage bad_chunk new_worker =
      (new_worker\<lparr>instance := Some Fulfilled\<rparr>,
       (if instance new_worker = None then [status_data ''model_loading''] else []) @
       [status_data ''model_ready'', error_data ''transcription_error'' ''Transcription failed''])"
    by (rule conjunct1)
  from T have b: "worker_run new_worker [bad_chunk, speech] =
      (new_worker\<lparr>instance := Some Fulfilled\<rparr>,
       snd (self_onmessage bad_chunk new_worker) @
       concat (map (\<lambda>e. [status_data ''model_ready'', chunk_result (transcriber_call e)]) [speech]))"
    by (rule conjunct1 [OF conjunct2])
  have h3: "transcriber_call speech =
      InferenceYields (Some \<lparr>transcript_text = Some '' Hello world ''\<rparr>) \<and> '' Hello world '' \<noteq> []"
    by (simp add: speech_def)
  have h4: "transcriber_call speech =
      InferenceYields (Some \<lparr>transcript_text = Some '' Hello world ''\<rparr>) \<and>
      trim '' Hello world '' \<noteq> []"
    by (simp add: speech_def tr)
  from T h3 have c: "self_onmessage speech (fst (self_onmessage bad_chunk new_worker)) =
      (new_worker\<lparr>instance := Some Fulfilled\<rparr>,
       [status_data ''model_ready'', text_data (trim '' Hello world '')])"
    by blast
  from T have rt: "worker_roundtrip bad_chunk (listening\<lparr>whisperWorker := Some new_worker\<rparr>) =
      (listening\<lparr>whisperWorker := Some (new_worker\<lparr>instance := Some Fulfilled\<rparr>)\<rparr>,
       map SendMessage ((if instance new_worker = None then [MODEL_LOADING] else []) @
                        [CAPTURE_STARTED]))"
    by blast
  from T h4 have rt2: "worker_roundtrip speech
        (fst (worker_roundtrip bad_chunk (listening\<lparr>whisperWorker := Some new_worker\<rparr>))) =
      (listening\<lparr>whisperWorker := Some (new_worker\<lparr>instance := Some Fulfilled\<rparr>)\<rparr>,
       [SendMessage CAPTURE_STARTED, SendMessage (TRANSCRIPT_READY (trim '' Hello world ''))])"
    by blast
  have d: "worker_run new_worker [bad_chunk, speech] =
     (\<lparr>instance = Some Fulfilled\<rparr>,
      [status_data ''model_loading'', status_data ''model_ready'',
       error_data ''transcription_error'' ''Transcription failed'',
       status_data ''model_ready'', text_data ''Hello world''])"
    unfolding b a
    by (simp add: new_worker_def speech_def chunk_result_def transcript_message_def tr)
  have e: "self_onmessage speech (fst (self_onmessage bad_chunk new_worker)) =
     (\<lparr>instance = Some Fulfilled\<rparr>, [status_data ''model_ready'', text_data ''Hello world''])"
    unfolding c by (simp add: new_worker_def tr)
  have f: "instance new_worker = None \<and> pipeline_call bad_chunk = Returns Fulfilled"
    by (simp add: new_worker_def bad_chunk_def)
  have g: "worker_roundtrip bad_chunk listening =
     (listening\<lparr>whisperWorker := Some \<lparr>instance = Some Fulfilled\<rparr>\<rparr>,
      [SendMessage MODEL_LOADING, SendMessage CAPTURE_STARTED])"
    using rt unfolding ls by (simp add: new_worker_def)
  have i: "worker_roundtrip speech (fst (worker_roundtrip bad_chunk listening)) =
     (listening\<lparr>whisperWorker := Some \<lparr>instance = Some Fulfilled\<rparr>\<rparr>,
      [SendMessage CAPTURE_STARTED, SendMessage (TRANSCRIPT_READY ''Hello world'')])"
    using rt2 unfolding ls by (simp add: new_worker_def tr)
  have j: "trim '' Hello world '' \<noteq> []" by (simp add: tr)
  from f h2 h3 j d e g i show ?thesis by blast
qed

text \<open>
  C3. A worker whose \<^verbatim>\<open>pipeline\<close> call throws on the first chunk posts
  \<^verbatim>\<open>model_loading\<close>, \<^verbatim>\<open>model_error\<close> and \<^verbatim>\<open>transcription_error\<close>. The capture context
  forwards \<^verbatim>\<open>MODEL_LOADING\<close> only and keeps listening, and the service worker, on
  \<^verbatim>\<open>MODEL_LOADING\<close>, only sets the badge. When the promise of \<^verbatim>\<open>pipeline\<close> is rejected
  instead, no \<^verbatim>\<open>model_error\<close> is posted at all.
\<close>

theorem model_error_not_forwarded:
  "snd (self_onmessage load_throws new_worker) =
     [status_data ''model_loading'', error_data ''model_error'' ''load failed'',
      error_data ''transcription_error'' ''load failed''] \<and>
   worker_roundtrip load_throws listening = (listening, [SendMessage MODEL_LOADING]) \<and>
   sw_onMessage MODEL_LOADING [7] =
     ([7], [SetBadgeText ''...'' None, SetBadgeBackgroundColor ''#FA9B3D'']) \<and>
   snd (self_onmessage load_rejected new_worker) =
     [status_data ''model_loading'', error_data ''transcription_error'' ''load failed''] \<and>
   snd (worker_roundtrip load_rejected listening) = [SendMessage MODEL_LOADING]"
  by (simp add: load_throws_def load_rejected_def new_worker_def listening_def
      worker_roundtrip_def self_onmessage_def getInstance_def forwarded_def
      whisperWorker_onmessage_def status_data_def error_data_def)

lemma whisperWorker_onmessage_no_error:
  "CAPTURE_ERROR m \<notin> set (whisperWorker_onmessage d)"
  by (simp add: whisperWorker_onmessage_def split: option.splits)

lemma trim_Nil: "trim [] = []"
  by (simp add: trim_def)

text \<open>
  C10. The capture context sends \<^verbatim>\<open>TRANSCRIPT_READY\<close> for a message of the worker
  exactly when the message has a non-empty text. For the result of a chunk, that is
  exactly when the transcript has a text whose trimmed form is not empty, and the message
  carries the trimmed text; otherwise no \<^verbatim>\<open>TRANSCRIPT_READY\<close> is sent. A chunk whose
  model is available still sends \<^verbatim>\<open>CAPTURE_STARTED\<close>, after \<^verbatim>\<open>MODEL_LOADING\<close> when it
  is the first: with no detected speech these are all the messages of the chunk.
\<close>

theorem transcript_ready_iff_nonempty:
  "(\<exists>m. TRANSCRIPT_READY m \<in> set (whisperWorker_onmessage d)) =
     (\<exists>t. data_text d = Some t \<and> t \<noteq> []) \<and>
   whisperWorker_onmessage (text_data []) = [] \<and>
   forwarded [transcript_message tr] =
     (case tr of
        None \<Rightarrow> []
      | Some r \<Rightarrow>
          (case transcript_text r of
             None \<Rightarrow> []
           | Some txt \<Rightarrow> if trim txt \<noteq> [] then [TRANSCRIPT_READY (trim txt)] else [])) \<and>
   ((instance w = Some Fulfilled \<or> (instance w = None \<and> pipeline_call env = Returns Fulfilled)) \<and>
    transcriber_call env = InferenceYields tr \<longrightarrow>
      forwarded (snd (self_onmessage env w)) =
        (if instance w = None then [MODEL_LOADING] else []) @ [CAPTURE_STARTED] @
        forwarded [transcript_message tr])"
proof -
  have 1: "(\<exists>m. TRANSCRIPT_READY m \<in> set (whisperWorker_onmessage d)) =
     (\<exists>t. data_text d = Some t \<and> t \<noteq> [])"
    by (cases "data_text d") (auto simp: whisperWorker_onmessage_def)
  have 2: "whisperWorker_onmessage (text_data []) = []"
    by (simp add: whisperWorker_onmessage_def text_data_def)
  have 3: "forwarded [transcript_message tr] =
     (case tr of
        None \<Rightarrow> []
      | Some r \<Rightarrow>
          (case transcript_text r of
             None \<Rightarrow> []
           | Some txt \<Rightarrow> if trim txt \<noteq> [] then [TRANSCRIPT_READY (trim txt)] else []))"
    by (auto simp: forwarded_def whisperWorker_onmessage_def transcript_message_def
        text_data_def trim_Nil split: option.splits)
  have l: "whisperWorker_onmessage (status_data ''model_loading'') = [MODEL_LOADING]"
    by (simp add: whisperWorker_onmessage_def status_data_def)
  have r: "whisperWorker_onmessage (status_data ''model_ready'') = [CAPTURE_STARTED]"
    by (simp add: whisperWorker_onmessage_def status_data_def)
  have 4: "(instance w = Some Fulfilled \<or> (instance w = None \<and> pipeline_call env = Returns Fulfilled)) \<and>
    transcriber_call env = InferenceYields tr \<longrightarrow>
      forwarded (snd (self_onmessage env w)) =
        (if instance w = None then [MODEL_LOADING] else []) @ [CAPTURE_STARTED] @
        forwarded [transcript_message tr]"
    by (auto simp: onmessage_loaded onmessage_first chunk_result_def forwarded_Cons
        forwarded_Nil l r)
  from 1 2 3 4 show ?thesis by blast
qed

theorem transcript_ready_iff_nonempty_witness:
  "(instance new_worker = None \<and> pipeline_call silence = Returns Fulfilled) \<and>
   transcriber_call silence = InferenceYields (Some \<lparr>transcript_text = Some []\<rparr>) \<and>
   forwarded (snd (self_onmessage silence new_worker)) = [MODEL_LOADING, CAPTURE_STARTED]"
proof -
  have h: "(instance new_worker = Some Fulfilled \<or>
            (instance new_worker = None \<and> pipeline_call silence = Returns Fulfilled)) \<and>
           transcriber_call silence = InferenceYields (Some \<lparr>transcript_text = Some []\<rparr>)"
    by (simp add: new_worker_def silence_def)
  note T = transcript_ready_iff_nonempty [of _ "Some \<lparr>transcript_text = Some []\<rparr>" new_worker silence]
  from T h have "forwarded (snd (self_onmessage silence new_worker)) =
        (if instance new_worker = None then [MODEL_LOADING] else []) @ [CAPTURE_STARTED] @
        forwarded [transcript_message (Some \<lparr>transcript_text = Some []\<rparr>)]"
    by blast
  moreover from T have "forwarded [transcript_message (Some \<lparr>transcript_text = Some []\<rparr>)] = []"
    by (simp add: trim_Nil)
  ultimately have "forwarded (snd (self_onmessage silence new_worker)) =
      [MODEL_LOADING, CAPTURE_STARTED]"
    by (simp add: new_worker_def)
  with h show ?thesis by (simp add: new_worker_def)
qed

theorem silent_chunk_sends_capture_started:
  "forwarded (snd (self_onmessage silence \<lparr>instance = Some Fulfilled\<rparr>)) = [CAPTURE_STARTED]"
  by (simp add: silence_def self_onmessage_def getInstance_def forwarded_def
      whisperWorker_onmessage_def status_data_def transcript_message_def text_data_def)

end
